theory Spec2Isabelle
  imports Main
begin

section \<open>The browser environment\<close>

text \<open>
  The client script (src/static/js/client.js) keeps its state in module-level variables
  and acts on the page through four browser services: the class lists of a few elements,
  the interval and timeout timers, the location of the window, and the local storage.
  Each of them is a field of the state below, and every function of the script is a
  function from state to state.

  A \<open>classList\<close> is an ordered set of tokens: \<open>add\<close> appends the tokens that are
  missing, \<open>remove\<close> deletes the tokens given.
\<close>

type_synonym classList = "string list"

definition cl_add :: "string list \<Rightarrow> classList \<Rightarrow> classList" where
  "cl_add ts cs = foldl (\<lambda>acc t. if t \<in> set acc then acc else acc @ [t]) cs ts"

definition cl_remove :: "string list \<Rightarrow> classList \<Rightarrow> classList" where
  "cl_remove ts cs = filter (\<lambda>c. c \<notin> set ts) cs"

text \<open>The elements the modelled functions look up by id, each with what is written to it.\<close>

record dom =
  approvalModal :: classList
  approvalContent :: classList
  statusWaiting :: classList
  statusRejected :: classList
  statusApproved :: classList
  reqIdDisplay :: string
  pauseOverlay :: classList
  mainContent :: classList

text \<open>
  An assignment to \<open>window.location.href\<close> and a call of \<open>window.location.reload()\<close>
  each request one navigation; the script goes on running after either, so the
  navigations requested are kept as a list, oldest first.
\<close>

datatype navigation = Href string | Reload

text \<open>
  The callback of an interval timer, as data: the status tick registered when the page
  loads, or the closure \<open>pollRequest\<close> creates, which holds the request id.
\<close>

datatype callback = StatusTick | PollTick string

text \<open>What a promise is rejected with.\<close>

datatype js_error =
  NetworkFailure
  | JsonSyntaxError
  | Error string
  | TypeError

text \<open>
  The outcome of one \<open>fetch\<close> followed by \<open>response.json()\<close>: the fetch is rejected
  (the network failed), or a response arrived with its \<open>ok\<close> flag and its body, which
  is \<open>None\<close> when the body is not JSON (then \<open>response.json()\<close> is rejected).
\<close>

datatype 'a fetched = Failed | Replied bool "'a option"

text \<open>
  The module-level variables of lines 186 to 210 (\<open>isGridView\<close> to \<open>pollInterval\<close>)
  and the browser services. A timer handle is a positive number; \<open>nextHandle\<close> is the
  handle the next \<open>setInterval\<close> returns. \<open>timeouts\<close> holds the
  \<open>data.link\<close> of every pending 1.5 s timeout of \<open>pollRequest\<close>.
\<close>

record state =
  isGridView :: bool
  pausedState :: bool
  currentConfigId :: "string option"
  currentReqId :: "string option"
  pollInterval :: "nat option"
  localStorage :: "(string \<times> string) list"
  intervals :: "(nat \<times> callback) list"
  nextHandle :: nat
  timeouts :: "string option list"
  location :: "navigation list"
  console :: "(string \<times> js_error) list"
  alerts :: "string list"
  page :: dom

definition navigate :: "navigation \<Rightarrow> state \<Rightarrow> state" where
  "navigate n st = st\<lparr>location := location st @ [n]\<rparr>"

text \<open>A property that is absent reads as \<open>undefined\<close>, which a string context prints.\<close>

definition js_string :: "string option \<Rightarrow> string" where
  "js_string v = (case v of None \<Rightarrow> ''undefined'' | Some s \<Rightarrow> s)"

definition setInterval :: "callback \<Rightarrow> state \<Rightarrow> nat \<times> state" where
  "setInterval cb st =
     (nextHandle st,
      st\<lparr>intervals := intervals st @ [(nextHandle st, cb)], nextHandle := Suc (nextHandle st)\<rparr>)"

text \<open>\<open>clearInterval(null)\<close> and \<open>clearInterval\<close> of a handle that is not active do nothing.\<close>

definition clearInterval :: "nat option \<Rightarrow> state \<Rightarrow> state" where
  "clearInterval h st =
     (case h of
        None \<Rightarrow> st
      | Some i \<Rightarrow> st\<lparr>intervals := filter (\<lambda>(j, cb). j \<noteq> i) (intervals st)\<rparr>)"

definition getItem :: "string \<Rightarrow> state \<Rightarrow> string option" where
  "getItem k st = map_of (localStorage st) k"

definition setItem :: "string \<Rightarrow> string \<Rightarrow> state \<Rightarrow> state" where
  "setItem k v st = st\<lparr>localStorage := (k, v) # filter (\<lambda>(k', v'). k' \<noteq> k) (localStorage st)\<rparr>"

section \<open>The session watcher: checkStatus\<close>

text \<open>
  The reply of \<open>GET /api/client/status\<close>, with the fields typed as the interface gives
  them: three booleans and the configuration id, a string.
\<close>

record status_data =
  force_logout :: bool
  running :: bool
  config_id :: string
  paused :: bool

text \<open>
  Lines 388 to 400 (the same text stands at lines 69 to 83 and 609 to 621): the pause
  overlay follows \<open>data.paused\<close> when it differs from \<open>pausedState\<close>.
\<close>

definition pauseStep :: "status_data \<Rightarrow> state \<Rightarrow> state" where
  "pauseStep d st =
     (if paused d \<and> \<not> pausedState st then
        st\<lparr>pausedState := True,
           page := (page st)\<lparr>
             pauseOverlay := cl_remove [''opacity-0'', ''pointer-events-none''] (pauseOverlay (page st)),
             mainContent := cl_add [''blur-sm''] (mainContent (page st))\<rparr>\<rparr>
      else if \<not> paused d \<and> pausedState st then
        st\<lparr>pausedState := False,
           page := (page st)\<lparr>
             pauseOverlay := cl_add [''opacity-0'', ''pointer-events-none''] (pauseOverlay (page st)),
             mainContent := cl_remove [''blur-sm''] (mainContent (page st))\<rparr>\<rparr>
      else st)"

text \<open>
  The callback \<open>data => {...}\<close> of lines 370 to 401 (and, word for word, of lines 586
  to 622). Each \<open>return\<close> after a navigation ends the callback.
\<close>

definition checkStatus_data :: "status_data \<Rightarrow> state \<Rightarrow> state" where
  "checkStatus_data d st =
     (if force_logout d then navigate (Href ''/login?reason=logout'') st
      else if \<not> running d then navigate (Href ''/logout'') st
      else if currentConfigId st = None then
        pauseStep d (st\<lparr>currentConfigId := Some (config_id d)\<rparr>)
      else if currentConfigId st \<noteq> Some (config_id d) then navigate (Href ''/files'') st
      else pauseStep d st)"

text \<open>
  One tick of \<open>checkStatus\<close> (lines 367 to 402), given the outcome of its fetch. The
  chain \<open>fetch(...).then(...).then(...)\<close> has no rejection handler and does not read
  \<open>response.ok\<close>: a rejection of the fetch or of \<open>response.json()\<close> skips the
  callback and is the result of the chain.
\<close>

fun checkStatus :: "status_data fetched \<Rightarrow> state \<Rightarrow> state \<times> (js_error + unit)" where
  "checkStatus Failed st = (st, Inl NetworkFailure)"
| "checkStatus (Replied ok None) st = (st, Inl JsonSyntaxError)"
| "checkStatus (Replied ok (Some d)) st = (checkStatus_data d st, Inr ())"

section \<open>The view preference\<close>

text \<open>
  \<open>toggleView\<close> (lines 231 to 362) sets \<open>isGridView\<close>, stores the mode under the key
  \<open>viewMode\<close> and then reshapes the file container, the icon and the file cards. The
  reshaping of lines 241 to 361 writes class lists that no other function reads and is
  left out here.
\<close>

definition toggleView :: "bool \<Rightarrow> state \<Rightarrow> state" where
  "toggleView forceList st =
     (let st1 = st\<lparr>isGridView := (if forceList then False else \<not> isGridView st)\<rparr>
      in setItem ''viewMode'' (if isGridView st1 then ''grid'' else ''list'') st1)"

text \<open>\<open>loadViewPreference\<close>, lines 216 to 221.\<close>

definition loadViewPreference :: "state \<Rightarrow> state" where
  "loadViewPreference st =
     (if getItem ''viewMode'' st = Some ''list'' then toggleView True st else st)"

text \<open>
  Loading the page runs the whole script once: the initial values of lines 189 to 210,
  \<open>loadViewPreference()\<close> (line 509) and \<open>setInterval(checkStatus, 1000)\<close> (line 512).
  The local storage outlives the page, so it is an argument, as are the elements of the
  page.
\<close>

definition pageLoad :: "(string \<times> string) list \<Rightarrow> dom \<Rightarrow> state" where
  "pageLoad storage els =
     snd (setInterval StatusTick
       (loadViewPreference
          \<lparr>isGridView = True, pausedState = False, currentConfigId = None,
           currentReqId = None, pollInterval = None, localStorage = storage,
           intervals = [], nextHandle = 1, timeouts = [], location = [],
           console = [], alerts = [], page = els\<rparr>))"

section \<open>The download request controller\<close>

text \<open>
  The JSON object a download reply carries. The script reads four properties of it, each
  of which may be absent: \<open>status\<close>, \<open>direct_link\<close> (sent with an immediate approval),
  \<open>req_id\<close> (sent with a pending request) and \<open>link\<close> (sent by
  \<open>check_request\<close> once approved).
\<close>

record reply =
  status :: "string option"
  direct_link :: "string option"
  req_id :: "string option"
  link :: "string option"

text \<open>What \<open>if (x)\<close> makes of a handle and of a string that may be null.\<close>

definition truthy_handle :: "nat option \<Rightarrow> bool" where
  "truthy_handle h = (case h of None \<Rightarrow> False | Some n \<Rightarrow> n \<noteq> 0)"

definition truthy_string :: "string option \<Rightarrow> bool" where
  "truthy_string v = (case v of None \<Rightarrow> False | Some s \<Rightarrow> s \<noteq> [])"

text \<open>\<open>closeModal\<close>, lines 496 to 506.\<close>

definition closeModal :: "state \<Rightarrow> state" where
  "closeModal st =
     (let st1 = st\<lparr>page := (page st)\<lparr>
                  approvalModal := cl_add [''opacity-0'', ''pointer-events-none''] (approvalModal (page st)),
                  approvalContent := cl_remove [''scale-100''] (cl_add [''scale-95''] (approvalContent (page st)))\<rparr>\<rparr>;
          st2 = (if truthy_handle (pollInterval st1) then clearInterval (pollInterval st1) st1 else st1)
      in st2\<lparr>currentReqId := None\<rparr>)"

text \<open>\<open>showApproved\<close> and \<open>showRejected\<close>, lines 486 to 494.\<close>

definition showApproved :: "state \<Rightarrow> state" where
  "showApproved st =
     st\<lparr>page := (page st)\<lparr>
          statusWaiting := cl_add [''hidden''] (statusWaiting (page st)),
          statusApproved := cl_remove [''hidden''] (statusApproved (page st))\<rparr>\<rparr>"

definition showRejected :: "state \<Rightarrow> state" where
  "showRejected st =
     st\<lparr>page := (page st)\<lparr>
          statusWaiting := cl_add [''hidden''] (statusWaiting (page st)),
          statusRejected := cl_remove [''hidden''] (statusRejected (page st))\<rparr>\<rparr>"

text \<open>
  \<open>pollRequest\<close>, lines 466 to 484: the call itself registers the interval and stores
  its handle in \<open>pollInterval\<close>, without looking at the handle stored there before.
\<close>

definition pollRequest :: "string \<Rightarrow> state \<Rightarrow> state" where
  "pollRequest reqId st =
     (case setInterval (PollTick reqId) st of (h, st1) \<Rightarrow> st1\<lparr>pollInterval := Some h\<rparr>)"

text \<open>
  The callback \<open>data => {...}\<close> of lines 470 to 482, run when the reply of one poll
  arrives. \<open>clearInterval(pollInterval)\<close> reads the variable at that moment.
\<close>

definition pollRequest_data :: "reply \<Rightarrow> state \<Rightarrow> state" where
  "pollRequest_data d st =
     (if status d = Some ''approved'' then
        (let st1 = showApproved (clearInterval (pollInterval st) st)
         in st1\<lparr>timeouts := timeouts st1 @ [link d]\<rparr>)
      else if status d = Some ''rejected'' then
        showRejected (clearInterval (pollInterval st) st)
      else st)"

text \<open>
  One tick of the interval of \<open>pollRequest\<close> (lines 468 to 482), given the outcome of
  its fetch; as in \<open>checkStatus\<close> the chain has no rejection handler.
\<close>

fun pollRequest_tick :: "reply fetched \<Rightarrow> state \<Rightarrow> state \<times> (js_error + unit)" where
  "pollRequest_tick Failed st = (st, Inl NetworkFailure)"
| "pollRequest_tick (Replied ok None) st = (st, Inl JsonSyntaxError)"
| "pollRequest_tick (Replied ok (Some d)) st = (pollRequest_data d st, Inr ())"

text \<open>The oldest pending timeout of lines 474 to 477 fires.\<close>

definition pollRequest_timeout :: "state \<Rightarrow> state" where
  "pollRequest_timeout st =
     (case timeouts st of
        [] \<Rightarrow> st
      | l # ls \<Rightarrow> closeModal (navigate (Href (js_string l)) (st\<lparr>timeouts := ls\<rparr>)))"

text \<open>
  \<open>initiateDownload\<close>, lines 407 to 447, in its two parts. The first runs at the call:
  it opens the modal in its waiting state and clears \<open>currentReqId\<close> (lines 408 to 420).
\<close>

definition initiateDownload_open :: "state \<Rightarrow> state" where
  "initiateDownload_open st =
     st\<lparr>currentReqId := None,
        page := (page st)\<lparr>
          approvalModal := cl_remove [''opacity-0'', ''pointer-events-none''] (approvalModal (page st)),
          approvalContent := cl_add [''scale-100''] (cl_remove [''scale-95''] (approvalContent (page st))),
          statusWaiting := cl_remove [''hidden''] (statusWaiting (page st)),
          statusRejected := cl_add [''hidden''] (statusRejected (page st)),
          statusApproved := cl_add [''hidden''] (statusApproved (page st)),
          reqIdDisplay := ''ID: ...''\<rparr>\<rparr>"

text \<open>
  The callback \<open>data => {...}\<close> of lines 431 to 440. With \<open>status\<close> pending and no
  \<open>req_id\<close>, \<open>data.req_id.substring\<close> throws after \<open>currentReqId\<close> was assigned.
\<close>

definition initiateDownload_data :: "reply \<Rightarrow> state \<Rightarrow> state \<times> (js_error + unit)" where
  "initiateDownload_data d st =
     (if status d = Some ''approved'' then
        (navigate (Href (js_string (direct_link d))) (closeModal st), Inr ())
      else if status d = Some ''pending'' then
        (case req_id d of
           None \<Rightarrow> (st\<lparr>currentReqId := None\<rparr>, Inl TypeError)
         | Some r \<Rightarrow>
             (pollRequest r
                (st\<lparr>currentReqId := Some r,
                    page := (page st)\<lparr>reqIdDisplay := ''ID: '' @ take 8 r\<rparr>\<rparr>),
              Inr ()))
      else (st, Inr ()))"

text \<open>The rejection handler \<open>.catch(err => {...})\<close> of lines 441 to 446.\<close>

definition initiateDownload_catch :: "js_error \<Rightarrow> state \<Rightarrow> state" where
  "initiateDownload_catch err st =
     (let st1 = closeModal (st\<lparr>console := console st @ [(''Download Request Failed:'', err)]\<rparr>);
          st2 = st1\<lparr>alerts := alerts st1 @ [''Could not request file. The shared folder might have changed.'']\<rparr>
      in navigate Reload st2)"

text \<open>
  The second part runs when the fetch settles (lines 427 to 446): a response that is not
  \<open>ok\<close> throws before its body is read, and every rejection of the chain ends in the
  handler above.
\<close>

fun initiateDownload_reply :: "reply fetched \<Rightarrow> state \<Rightarrow> state" where
  "initiateDownload_reply Failed st = initiateDownload_catch NetworkFailure st"
| "initiateDownload_reply (Replied ok body) st =
     (if \<not> ok then initiateDownload_catch (Error ''File not found or server error'') st
      else case body of
        None \<Rightarrow> initiateDownload_catch JsonSyntaxError st
      | Some d \<Rightarrow>
          (case initiateDownload_data d st of
             (st1, Inl e) \<Rightarrow> initiateDownload_catch e st1
           | (st1, Inr u) \<Rightarrow> st1))"

text \<open>
  The whole of \<open>initiateDownload(filename, path)\<close> when nothing else runs between the
  call and the reply. The two arguments only travel in the body of the request.
\<close>

definition initiateDownload :: "string \<Rightarrow> string \<Rightarrow> reply fetched \<Rightarrow> state \<Rightarrow> state" where
  "initiateDownload filename path r st = initiateDownload_reply r (initiateDownload_open st)"

text \<open>
  \<open>cancelDownload\<close>, lines 452 to 461. The request is sent only for a truthy
  \<open>currentReqId\<close>; its fetch settles after \<open>closeModal\<close> has run, and a rejection of
  it is logged by \<open>.catch(e => console.error(e))\<close>.
\<close>

definition cancelDownload :: "unit fetched \<Rightarrow> state \<Rightarrow> state" where
  "cancelDownload r st =
     (let st1 = closeModal st
      in if truthy_string (currentReqId st) \<and> r = Failed
         then st1\<lparr>console := console st1 @ [([], NetworkFailure)]\<rparr>
         else st1)"

section \<open>The first copy of the script\<close>

text \<open>
  src/static/js/client.js holds three copies of the script, one after the other: lines 1
  to 185, lines 186 to 512 and lines 513 to 736. The definitions above follow the second
  copy, the only one with \<open>currentReqId\<close>, \<open>cancelDownload\<close> and the stored view
  preference; \<open>checkStatus\<close> and \<open>pollRequest\<close> read the same in the third. The first
  copy differs where the definitions below say so. It declares \<open>isGridView\<close>,
  \<open>pausedState\<close> and \<open>pollInterval\<close> only; the other fields of the state stay as
  they are.
\<close>

text \<open>
  The callback of \<open>checkStatus\<close> in the first copy, lines 65 to 84: it reads
  \<open>running\<close> and \<open>paused\<close> only, reloads the page when the server is not running,
  and goes on to the pause overlay, since no \<open>return\<close> follows the reload.
\<close>

definition checkStatus_v1_data :: "status_data \<Rightarrow> state \<Rightarrow> state" where
  "checkStatus_v1_data d st = pauseStep d (if \<not> running d then navigate Reload st else st)"

fun checkStatus_v1 :: "status_data fetched \<Rightarrow> state \<Rightarrow> state \<times> (js_error + unit)" where
  "checkStatus_v1 Failed st = (st, Inl NetworkFailure)"
| "checkStatus_v1 (Replied ok None) st = (st, Inl JsonSyntaxError)"
| "checkStatus_v1 (Replied ok (Some d)) st = (checkStatus_v1_data d st, Inr ())"

text \<open>\<open>closeModal\<close> in the first copy, lines 173 to 182.\<close>

definition closeModal_v1 :: "state \<Rightarrow> state" where
  "closeModal_v1 st =
     (let st1 = st\<lparr>page := (page st)\<lparr>
                  approvalModal := cl_add [''opacity-0'', ''pointer-events-none''] (approvalModal (page st)),
                  approvalContent := cl_remove [''scale-100''] (cl_add [''scale-95''] (approvalContent (page st)))\<rparr>\<rparr>
      in if truthy_handle (pollInterval st1) then clearInterval (pollInterval st1) st1 else st1)"

text \<open>
  \<open>initiateDownload\<close> in the first copy, lines 94 to 126: the part that runs at the
  call (lines 95 to 106), the callback of lines 115 to 125, and the chain of lines 109 to
  125, which neither reads \<open>response.ok\<close> nor ends in a rejection handler.
  \<open>pollRequest\<close> (lines 133 to 152) reads as in the second copy.
\<close>

definition initiateDownload_v1_open :: "state \<Rightarrow> state" where
  "initiateDownload_v1_open st =
     st\<lparr>page := (page st)\<lparr>
          approvalModal := cl_remove [''opacity-0'', ''pointer-events-none''] (approvalModal (page st)),
          approvalContent := cl_add [''scale-100''] (cl_remove [''scale-95''] (approvalContent (page st))),
          statusWaiting := cl_remove [''hidden''] (statusWaiting (page st)),
          statusRejected := cl_add [''hidden''] (statusRejected (page st)),
          statusApproved := cl_add [''hidden''] (statusApproved (page st))\<rparr>\<rparr>"

definition initiateDownload_v1_data :: "reply \<Rightarrow> state \<Rightarrow> state \<times> (js_error + unit)" where
  "initiateDownload_v1_data d st =
     (if status d = Some ''approved'' then
        (navigate (Href (js_string (direct_link d))) (closeModal_v1 st), Inr ())
      else if status d = Some ''pending'' then
        (case req_id d of
           None \<Rightarrow> (st, Inl TypeError)
         | Some r \<Rightarrow>
             (pollRequest r (st\<lparr>page := (page st)\<lparr>reqIdDisplay := ''ID: '' @ take 8 r\<rparr>\<rparr>),
              Inr ()))
      else (st, Inr ()))"

fun initiateDownload_v1_reply :: "reply fetched \<Rightarrow> state \<Rightarrow> state \<times> (js_error + unit)" where
  "initiateDownload_v1_reply Failed st = (st, Inl NetworkFailure)"
| "initiateDownload_v1_reply (Replied ok None) st = (st, Inl JsonSyntaxError)"
| "initiateDownload_v1_reply (Replied ok (Some d)) st = initiateDownload_v1_data d st"

definition initiateDownload_v1 ::
  "string \<Rightarrow> string \<Rightarrow> reply fetched \<Rightarrow> state \<Rightarrow> state \<times> (js_error + unit)" where
  "initiateDownload_v1 filename path r st =
     initiateDownload_v1_reply r (initiateDownload_v1_open st)"

text \<open>Loading a page that runs the first copy: lines 5 to 17 and line 185.\<close>

definition pageLoad_v1 :: "dom \<Rightarrow> state" where
  "pageLoad_v1 els =
     snd (setInterval StatusTick
       \<lparr>isGridView = True, pausedState = False, currentConfigId = None,
        currentReqId = None, pollInterval = None, localStorage = [],
        intervals = [], nextHandle = 1, timeouts = [], location = [],
        console = [], alerts = [], page = els\<rparr>)"

section \<open>Runs\<close>

text \<open>
  Ticks of one timer run one after the other, each on the state the one before left. A
  run takes the outcomes of the fetches in the order in which they are handled.
\<close>

fun checkStatus_run :: "status_data fetched list \<Rightarrow> state \<Rightarrow> state" where
  "checkStatus_run [] st = st"
| "checkStatus_run (r # rs) st = checkStatus_run rs (fst (checkStatus r st))"

fun pollRequest_run :: "reply fetched list \<Rightarrow> state \<Rightarrow> state" where
  "pollRequest_run [] st = st"
| "pollRequest_run (r # rs) st = pollRequest_run rs (fst (pollRequest_tick r st))"

text \<open>The \<open>status\<close> a tick observes, if it observes one.\<close>

fun observed :: "reply fetched \<Rightarrow> string option" where
  "observed (Replied ok (Some d)) = status d"
| "observed (Replied ok None) = None"
| "observed Failed = None"

text \<open>The \<open>paused\<close> a status tick observes, if it observes one.\<close>

fun observedPaused :: "status_data fetched \<Rightarrow> bool option" where
  "observedPaused (Replied ok (Some d)) = Some (paused d)"
| "observedPaused (Replied ok None) = None"
| "observedPaused Failed = None"

text \<open>
  What the pause overlay shows, together with the flag that tracks it, and the number of
  ticks of a run that change it.
\<close>

definition pauseUI :: "state \<Rightarrow> bool \<times> classList \<times> classList" where
  "pauseUI st = (pausedState st, pauseOverlay (page st), mainContent (page st))"

fun pauseToggles :: "status_data fetched list \<Rightarrow> state \<Rightarrow> nat" where
  "pauseToggles [] st = 0"
| "pauseToggles (r # rs) st =
     (if pauseUI (fst (checkStatus r st)) = pauseUI st then 0 else 1)
       + pauseToggles rs (fst (checkStatus r st))"

text \<open>
  The calls a page can make on the download controller, each with the outcome of the
  fetch it issues, and the polling timers that are active: the intervals other than the
  status tick.
\<close>

datatype call =
  InitiateDownload string string "reply fetched"
  | PollRequest string
  | CloseModal
  | CancelDownload "unit fetched"

fun call_step :: "call \<Rightarrow> state \<Rightarrow> state" where
  "call_step (InitiateDownload filename path r) st = initiateDownload filename path r st"
| "call_step (PollRequest reqId) st = pollRequest reqId st"
| "call_step CloseModal st = closeModal st"
| "call_step (CancelDownload r) st = cancelDownload r st"

fun calls_run :: "call list \<Rightarrow> state \<Rightarrow> state" where
  "calls_run [] st = st"
| "calls_run (c # cs) st = calls_run cs (call_step c st)"

definition pollTimers :: "state \<Rightarrow> (nat \<times> callback) list" where
  "pollTimers st = filter (\<lambda>(h, cb). cb \<noteq> StatusTick) (intervals st)"

section \<open>Concrete pages\<close>

text \<open>
  The template that declares the elements is not among the files verified here. The
  scenarios below run on this page: the modal and the overlay hidden, the waiting panel of
  the modal shown and the two others hidden.
\<close>

definition page0 :: dom where
  "page0 =
     \<lparr>approvalModal = [''fixed'', ''opacity-0'', ''pointer-events-none''],
      approvalContent = [''scale-95''],
      statusWaiting = [],
      statusRejected = [''hidden''],
      statusApproved = [''hidden''],
      reqIdDisplay = ''ID: ...'',
      pauseOverlay = [''fixed'', ''opacity-0'', ''pointer-events-none''],
      mainContent = []\<rparr>"

section \<open>Properties of checkStatus\<close>

text \<open>
  C3. Whenever the status reply has \<open>force_logout\<close> true, the tick requests exactly one
  navigation, to \<open>/login?reason=logout\<close>, whatever \<open>running\<close>, \<open>paused\<close> and
  \<open>config_id\<close> are and whatever the \<open>ok\<close> flag of the response is, and changes
  nothing else of the state.
\<close>

theorem checkStatus_force_logout:
  "force_logout d \<Longrightarrow>
     checkStatus (Replied ok (Some d)) st =
       (st\<lparr>location := location st @ [Href ''/login?reason=logout'']\<rparr>, Inr ())"
  by (simp add: checkStatus_data_def navigate_def)

theorem checkStatus_force_logout_witness:
  "force_logout \<lparr>force_logout = True, running = False, config_id = ''cfg_v2'', paused = True\<rparr>
   \<and> location (fst (checkStatus
         (Replied True (Some \<lparr>force_logout = True, running = False, config_id = ''cfg_v2'', paused = True\<rparr>))
         (pageLoad [] page0))) = [Href ''/login?reason=logout'']"
  using checkStatus_force_logout
    [of "\<lparr>force_logout = True, running = False, config_id = ''cfg_v2'', paused = True\<rparr>"
        True "pageLoad [] page0"]
  by (simp add: pageLoad_def loadViewPreference_def getItem_def setInterval_def)

subsection \<open>The configuration baseline\<close>

lemma checkStatus_config_kept:
  assumes b: "currentConfigId st = Some b"
  shows "currentConfigId (fst (checkStatus r st)) = Some b"
proof (cases r)
  case Failed
  with b show ?thesis by simp
next
  case (Replied ok body)
  show ?thesis
  proof (cases body)
    case None
    with Replied b show ?thesis by simp
  next
    case (Some d)
    with Replied b show ?thesis
      by (simp add: checkStatus_data_def navigate_def pauseStep_def)
  qed
qed

lemma checkStatus_run_config_kept:
  "currentConfigId st = Some b \<Longrightarrow> currentConfigId (checkStatus_run rs st) = Some b"
  by (induction rs arbitrary: st) (simp_all add: checkStatus_config_kept)

text \<open>
  C4. The callback reads \<open>config_id\<close> only at lines 381 to 386, which a reply reaches
  when \<open>force_logout\<close> is false and \<open>running\<close> is true; such a reply is an
  observation of the configuration id. The first observation, made while
  \<open>currentConfigId\<close> is null, records the id and requests no navigation. A later
  observation of the recorded id does nothing about the configuration: the tick is the
  pause step alone, the baseline and the location stay. A later observation of another id
  requests exactly one navigation, to \<open>/files\<close>, and changes nothing else. Once
  recorded, the baseline is never rewritten, by no tick and no run of ticks.
\<close>

theorem checkStatus_config_baseline:
  "\<not> force_logout d \<Longrightarrow> running d \<Longrightarrow>
     (currentConfigId st = None \<longrightarrow>
        currentConfigId (fst (checkStatus (Replied ok (Some d)) st)) = Some (config_id d)
        \<and> location (fst (checkStatus (Replied ok (Some d)) st)) = location st)
   \<and> (currentConfigId st = Some (config_id d) \<longrightarrow>
        fst (checkStatus (Replied ok (Some d)) st) = pauseStep d st
        \<and> currentConfigId (fst (checkStatus (Replied ok (Some d)) st)) = Some (config_id d)
        \<and> location (fst (checkStatus (Replied ok (Some d)) st)) = location st)
   \<and> (\<forall>b. currentConfigId st = Some b \<and> b \<noteq> config_id d \<longrightarrow>
        fst (checkStatus (Replied ok (Some d)) st)
          = st\<lparr>location := location st @ [Href ''/files'']\<rparr>)
   \<and> (\<forall>b r rs. currentConfigId st = Some b \<longrightarrow>
        currentConfigId (fst (checkStatus r st)) = Some b
        \<and> currentConfigId (checkStatus_run rs st) = Some b)"
proof (intro conjI impI allI)
  assume h: "\<not> force_logout d" "running d"
  { assume n: "currentConfigId st = None"
    from h n show "currentConfigId (fst (checkStatus (Replied ok (Some d)) st)) = Some (config_id d)"
      by (simp add: checkStatus_data_def pauseStep_def)
    from h n show "location (fst (checkStatus (Replied ok (Some d)) st)) = location st"
      by (simp add: checkStatus_data_def pauseStep_def) }
  { assume e: "currentConfigId st = Some (config_id d)"
    from h e show "fst (checkStatus (Replied ok (Some d)) st) = pauseStep d st"
      by (simp add: checkStatus_data_def)
    from h e show "currentConfigId (fst (checkStatus (Replied ok (Some d)) st)) = Some (config_id d)"
      by (simp add: checkStatus_data_def pauseStep_def)
    from h e show "location (fst (checkStatus (Replied ok (Some d)) st)) = location st"
      by (simp add: checkStatus_data_def pauseStep_def) }
  { fix b assume "currentConfigId st = Some b \<and> b \<noteq> config_id d"
    with h show "fst (checkStatus (Replied ok (Some d)) st)
        = st\<lparr>location := location st @ [Href ''/files'']\<rparr>"
      by (simp add: checkStatus_data_def navigate_def) }
  { fix b r assume "currentConfigId st = Some b"
    then show "currentConfigId (fst (checkStatus r st)) = Some b"
      by (rule checkStatus_config_kept) }
  { fix b rs assume "currentConfigId st = Some b"
    then show "currentConfigId (checkStatus_run rs st) = Some b"
      by (rule checkStatus_run_config_kept) }
qed

text \<open>
  The scenario of the specification: \<open>cfg_v1\<close> is observed on a fresh page, then again,
  then \<open>cfg_v2\<close>.
\<close>

theorem checkStatus_config_baseline_witness:
  "currentConfigId (pageLoad [] page0) = None
   \<and> currentConfigId (checkStatus_run
        [Replied True (Some \<lparr>force_logout = False, running = True, config_id = ''cfg_v1'', paused = False\<rparr>)]
        (pageLoad [] page0)) = Some ''cfg_v1''
   \<and> checkStatus_run
        [Replied True (Some \<lparr>force_logout = False, running = True, config_id = ''cfg_v1'', paused = False\<rparr>),
         Replied True (Some \<lparr>force_logout = False, running = True, config_id = ''cfg_v1'', paused = False\<rparr>)]
        (pageLoad [] page0)
       = checkStatus_run
        [Replied True (Some \<lparr>force_logout = False, running = True, config_id = ''cfg_v1'', paused = False\<rparr>)]
        (pageLoad [] page0)
   \<and> location (checkStatus_run
        [Replied True (Some \<lparr>force_logout = False, running = True, config_id = ''cfg_v1'', paused = False\<rparr>),
         Replied True (Some \<lparr>force_logout = False, running = True, config_id = ''cfg_v1'', paused = False\<rparr>),
         Replied True (Some \<lparr>force_logout = False, running = True, config_id = ''cfg_v2'', paused = False\<rparr>)]
        (pageLoad [] page0)) = [Href ''/files'']
   \<and> currentConfigId (checkStatus_run
        [Replied True (Some \<lparr>force_logout = False, running = True, config_id = ''cfg_v1'', paused = False\<rparr>),
         Replied True (Some \<lparr>force_logout = False, running = True, config_id = ''cfg_v1'', paused = False\<rparr>),
         Replied True (Some \<lparr>force_logout = False, running = True, config_id = ''cfg_v2'', paused = False\<rparr>)]
        (pageLoad [] page0)) = Some ''cfg_v1''"
  using checkStatus_config_baseline
    [of "\<lparr>force_logout = False, running = True, config_id = ''cfg_v1'', paused = False\<rparr>"
        "pageLoad [] page0" True]
    checkStatus_config_baseline
    [of "\<lparr>force_logout = False, running = True, config_id = ''cfg_v2'', paused = False\<rparr>"
        "fst (checkStatus
           (Replied True (Some \<lparr>force_logout = False, running = True, config_id = ''cfg_v1'', paused = False\<rparr>))
           (pageLoad [] page0))" True]
  by (simp add: pageLoad_def loadViewPreference_def getItem_def setInterval_def
      checkStatus_data_def pauseStep_def navigate_def)

subsection \<open>The server that stopped\<close>

text \<open>
  In the first copy of the script a reply with \<open>running\<close> false reloads the page: the
  only navigation requested is the reload, none to \<open>/logout\<close>.
\<close>

theorem checkStatus_v1_reloads:
  "location (fst (checkStatus_v1
      (Replied True (Some \<lparr>force_logout = False, running = False, config_id = ''cfg_v1'', paused = False\<rparr>))
      (pageLoad_v1 page0))) = [Reload]"
  by (simp add: checkStatus_v1_data_def pauseStep_def navigate_def pageLoad_v1_def setInterval_def)

text \<open>
  C6, as amended. For every status reply with \<open>force_logout\<close> false and \<open>running\<close>
  false, \<open>checkStatus\<close> of the second and third copy (lines 367 to 402 and 583 to 623)
  requests exactly one navigation, to \<open>/logout\<close>, and changes nothing else.
  \<open>checkStatus\<close> of the first copy (lines 62 to 85), which does not read
  \<open>force_logout\<close>, requests a reload of the page instead and then applies the pause
  step.
\<close>

theorem checkStatus_not_running:
  "\<not> force_logout d \<Longrightarrow> \<not> running d \<Longrightarrow>
     checkStatus (Replied ok (Some d)) st
       = (st\<lparr>location := location st @ [Href ''/logout'']\<rparr>, Inr ())
   \<and> checkStatus_v1 (Replied ok (Some d)) st
       = (pauseStep d (st\<lparr>location := location st @ [Reload]\<rparr>), Inr ())"
  by (simp add: checkStatus_data_def checkStatus_v1_data_def navigate_def)

theorem checkStatus_not_running_witness:
  "\<not> force_logout \<lparr>force_logout = False, running = False, config_id = ''cfg_v1'', paused = True\<rparr>
   \<and> \<not> running \<lparr>force_logout = False, running = False, config_id = ''cfg_v1'', paused = True\<rparr>
   \<and> location (fst (checkStatus
        (Replied True (Some \<lparr>force_logout = False, running = False, config_id = ''cfg_v1'', paused = True\<rparr>))
        (pageLoad [] page0))) = [Href ''/logout'']
   \<and> pausedState (fst (checkStatus
        (Replied True (Some \<lparr>force_logout = False, running = False, config_id = ''cfg_v1'', paused = True\<rparr>))
        (pageLoad [] page0))) = False
   \<and> location (fst (checkStatus_v1
        (Replied True (Some \<lparr>force_logout = False, running = False, config_id = ''cfg_v1'', paused = True\<rparr>))
        (pageLoad_v1 page0))) = [Reload]
   \<and> pausedState (fst (checkStatus_v1
        (Replied True (Some \<lparr>force_logout = False, running = False, config_id = ''cfg_v1'', paused = True\<rparr>))
        (pageLoad_v1 page0))) = True"
  using checkStatus_not_running
    [of "\<lparr>force_logout = False, running = False, config_id = ''cfg_v1'', paused = True\<rparr>"
        True "pageLoad [] page0"]
    checkStatus_not_running
    [of "\<lparr>force_logout = False, running = False, config_id = ''cfg_v1'', paused = True\<rparr>"
        True "pageLoad_v1 page0"]
  by (simp add: pageLoad_def pageLoad_v1_def loadViewPreference_def getItem_def setInterval_def
      pauseStep_def)

subsection \<open>The pause overlay\<close>

lemma pauseStep_same:
  "paused d = pausedState st \<Longrightarrow> pauseStep d st = st"
  by (simp add: pauseStep_def)

lemma pauseUI_pauseStep_config:
  "pauseUI (pauseStep d (st\<lparr>currentConfigId := c\<rparr>)) = pauseUI (pauseStep d st)"
  by (simp add: pauseStep_def pauseUI_def)

lemma pauseUI_navigate: "pauseUI (navigate n st) = pauseUI st"
  by (simp add: navigate_def pauseUI_def)

lemma pauseUI_checkStatus_data:
  "pauseUI (checkStatus_data d st) = pauseUI st \<or> pauseUI (checkStatus_data d st) = pauseUI (pauseStep d st)"
  by (simp add: checkStatus_data_def pauseUI_navigate pauseUI_pauseStep_config)

lemma pauseUI_unobserved:
  assumes "observedPaused r \<noteq> Some (\<not> pausedState st)"
  shows "pauseUI (fst (checkStatus r st)) = pauseUI st"
proof (cases r)
  case Failed
  then show ?thesis by simp
next
  case (Replied ok body)
  show ?thesis
  proof (cases body)
    case None
    with Replied show ?thesis by simp
  next
    case (Some d)
    with Replied assms have "paused d = pausedState st" by simp
    then have "pauseStep d st = st" by (rule pauseStep_same)
    with pauseUI_checkStatus_data [of d st] Replied Some show ?thesis by auto
  qed
qed

lemma pauseUI_changed:
  assumes "pauseUI (fst (checkStatus r st)) \<noteq> pauseUI st"
  shows "observedPaused r = Some (\<not> pausedState st)
         \<and> pausedState (fst (checkStatus r st)) = (\<not> pausedState st)"
proof -
  from assms pauseUI_unobserved [of r st]
  have o: "observedPaused r = Some (\<not> pausedState st)" by blast
  then obtain ok d where r: "r = Replied ok (Some d)" and p: "paused d = (\<not> pausedState st)"
    by (cases r rule: observedPaused.cases) auto
  from assms r pauseUI_checkStatus_data [of d st]
  have "pauseUI (checkStatus_data d st) = pauseUI (pauseStep d st)" by auto
  then have "pausedState (checkStatus_data d st) = pausedState (pauseStep d st)"
    by (simp add: pauseUI_def)
  with p have "pausedState (checkStatus_data d st) = (\<not> pausedState st)"
    by (auto simp add: pauseStep_def)
  with o r show ?thesis by simp
qed

lemma pauseToggles_none:
  "\<forall>r\<in>set rs. observedPaused r \<noteq> Some (\<not> pausedState st) \<Longrightarrow> pauseToggles rs st = 0"
proof (induction rs arbitrary: st)
  case Nil
  then show ?case by simp
next
  case (Cons r rs)
  then have u: "pauseUI (fst (checkStatus r st)) = pauseUI st"
    by (simp add: pauseUI_unobserved)
  then have "pausedState (fst (checkStatus r st)) = pausedState st"
    by (simp add: pauseUI_def)
  with Cons have "pauseToggles rs (fst (checkStatus r st)) = 0" by simp
  with u show ?case by simp
qed

lemma pauseToggles_once:
  "\<forall>r\<in>set rs. observedPaused r \<noteq> Some (\<not> p) \<Longrightarrow> pauseToggles rs st \<le> 1"
proof (induction rs arbitrary: st)
  case Nil
  then show ?case by simp
next
  case (Cons r rs)
  show ?case
  proof (cases "pauseUI (fst (checkStatus r st)) = pauseUI st")
    case True
    with Cons show ?thesis by simp
  next
    case False
    then have c: "observedPaused r = Some (\<not> pausedState st)"
      and n: "pausedState (fst (checkStatus r st)) = (\<not> pausedState st)"
      using pauseUI_changed [of r st] by simp_all
    from Cons.prems c have "p = (\<not> pausedState st)" by auto
    with n Cons.prems have "\<forall>x\<in>set rs. observedPaused x \<noteq> Some (\<not> pausedState (fst (checkStatus r st)))"
      by simp
    then have "pauseToggles rs (fst (checkStatus r st)) = 0" by (rule pauseToggles_none)
    with False show ?thesis by simp
  qed
qed


text \<open>
  C7. The pause handling of \<open>checkStatus\<close> is edge-triggered and idempotent. A tick
  changes the overlay, the blur or the flag \<open>pausedState\<close> only if it observes a
  \<open>paused\<close> that differs from the flag, and then the flag takes the observed value; a
  tick that observes no such value (an equal one, or none because its fetch failed) leaves
  all three as they are. A reply that reaches the pause step (lines 388 to 400) enters the
  paused look on a rising edge, leaves it on a falling edge, and does nothing otherwise.
  In a run of ticks that all observe the same value of \<open>paused\<close>, at most one tick
  changes the overlay.
\<close>

theorem checkStatus_pause_edges:
  "(pauseUI (fst (checkStatus r st)) \<noteq> pauseUI st \<longrightarrow>
      observedPaused r = Some (\<not> pausedState st)
      \<and> pausedState (fst (checkStatus r st)) = (\<not> pausedState st))
   \<and> (observedPaused r \<noteq> Some (\<not> pausedState st) \<longrightarrow>
        pauseUI (fst (checkStatus r st)) = pauseUI st)
   \<and> (\<not> force_logout d \<and> running d
        \<and> (currentConfigId st = None \<or> currentConfigId st = Some (config_id d)) \<longrightarrow>
        pauseUI (fst (checkStatus (Replied ok (Some d)) st)) =
          (if paused d \<and> \<not> pausedState st then
             (True, cl_remove [''opacity-0'', ''pointer-events-none''] (pauseOverlay (page st)),
              cl_add [''blur-sm''] (mainContent (page st)))
           else if \<not> paused d \<and> pausedState st then
             (False, cl_add [''opacity-0'', ''pointer-events-none''] (pauseOverlay (page st)),
              cl_remove [''blur-sm''] (mainContent (page st)))
           else pauseUI st))
   \<and> ((\<forall>x\<in>set rs. observedPaused x \<noteq> Some (\<not> p)) \<longrightarrow> pauseToggles rs st \<le> 1)"
proof (intro conjI impI)
  assume "pauseUI (fst (checkStatus r st)) \<noteq> pauseUI st"
  then show "observedPaused r = Some (\<not> pausedState st)"
    and "pausedState (fst (checkStatus r st)) = (\<not> pausedState st)"
    using pauseUI_changed [of r st] by simp_all
next
  assume "observedPaused r \<noteq> Some (\<not> pausedState st)"
  then show "pauseUI (fst (checkStatus r st)) = pauseUI st" by (rule pauseUI_unobserved)
next
  assume "\<not> force_logout d \<and> running d
        \<and> (currentConfigId st = None \<or> currentConfigId st = Some (config_id d))"
  then show "pauseUI (fst (checkStatus (Replied ok (Some d)) st)) =
          (if paused d \<and> \<not> pausedState st then
             (True, cl_remove [''opacity-0'', ''pointer-events-none''] (pauseOverlay (page st)),
              cl_add [''blur-sm''] (mainContent (page st)))
           else if \<not> paused d \<and> pausedState st then
             (False, cl_add [''opacity-0'', ''pointer-events-none''] (pauseOverlay (page st)),
              cl_remove [''blur-sm''] (mainContent (page st)))
           else pauseUI st)"
    by (auto simp add: checkStatus_data_def pauseStep_def pauseUI_def)
next
  assume "\<forall>x\<in>set rs. observedPaused x \<noteq> Some (\<not> p)"
  then show "pauseToggles rs st \<le> 1" by (rule pauseToggles_once)
qed

theorem checkStatus_pause_edges_witness:
  "pauseToggles
      [Replied True (Some \<lparr>force_logout = False, running = True, config_id = ''cfg_v1'', paused = True\<rparr>),
       Failed,
       Replied True (Some \<lparr>force_logout = False, running = True, config_id = ''cfg_v1'', paused = True\<rparr>),
       Replied True (Some \<lparr>force_logout = False, running = True, config_id = ''cfg_v1'', paused = True\<rparr>)]
      (pageLoad [] page0) = 1
   \<and> pauseUI (fst (checkStatus
        (Replied True (Some \<lparr>force_logout = False, running = True, config_id = ''cfg_v1'', paused = True\<rparr>))
        (pageLoad [] page0))) = (True, [''fixed''], [''blur-sm''])
   \<and> pauseUI (fst (checkStatus
        (Replied True (Some \<lparr>force_logout = False, running = True, config_id = ''cfg_v1'', paused = False\<rparr>))
        (pageLoad [] page0))) = pauseUI (pageLoad [] page0)"
  using checkStatus_pause_edges
    [where r = "Replied True (Some \<lparr>force_logout = False, running = True, config_id = ''cfg_v1'', paused = False\<rparr>)"
       and st = "pageLoad [] page0"
       and d = "\<lparr>force_logout = False, running = True, config_id = ''cfg_v1'', paused = True\<rparr>"
       and ok = True
       and p = True
       and rs = "[Replied True (Some \<lparr>force_logout = False, running = True, config_id = ''cfg_v1'', paused = True\<rparr>),
       Failed,
       Replied True (Some \<lparr>force_logout = False, running = True, config_id = ''cfg_v1'', paused = True\<rparr>),
       Replied True (Some \<lparr>force_logout = False, running = True, config_id = ''cfg_v1'', paused = True\<rparr>)]"]
  by (simp add: pageLoad_def loadViewPreference_def getItem_def setInterval_def page0_def
      pauseUI_def checkStatus_data_def pauseStep_def cl_add_def cl_remove_def)

section \<open>Properties of the download request controller\<close>

subsection \<open>Polling until the request is decided\<close>

lemma pollRequest_tick_other:
  assumes "observed r \<noteq> Some ''approved''" and "observed r \<noteq> Some ''rejected''"
  shows "fst (pollRequest_tick r st) = st"
  using assms by (cases r rule: observed.cases) (simp_all add: pollRequest_data_def)

lemma pollRequest_tick_terminal:
  assumes "observed r = Some ''approved'' \<or> observed r = Some ''rejected''"
  shows "intervals (fst (pollRequest_tick r st)) = intervals (clearInterval (pollInterval st) st)"
  using assms by (cases r rule: observed.cases)
    (auto simp add: pollRequest_data_def showApproved_def showRejected_def Let_def)

lemma pollRequest_tick_not_approved:
  assumes "observed r \<noteq> Some ''approved''"
  shows "statusApproved (page (fst (pollRequest_tick r st))) = statusApproved (page st)
         \<and> timeouts (fst (pollRequest_tick r st)) = timeouts st
         \<and> location (fst (pollRequest_tick r st)) = location st"
  using assms by (cases r rule: observed.cases)
    (simp_all add: pollRequest_data_def showRejected_def clearInterval_def split: option.splits)

lemma pollRequest_run_not_approved:
  "\<forall>r\<in>set rs. observed r \<noteq> Some ''approved'' \<Longrightarrow>
     statusApproved (page (pollRequest_run rs st)) = statusApproved (page st)
     \<and> timeouts (pollRequest_run rs st) = timeouts st
     \<and> location (pollRequest_run rs st) = location st"
  by (induction rs arbitrary: st) (simp_all add: pollRequest_tick_not_approved)

lemma intervals_clearInterval:
  "intervals (clearInterval (Some h) st) = filter (\<lambda>(j, cb). j \<noteq> h) (intervals st)"
  by (simp add: clearInterval_def)

lemma pollRequest_tick_intervals_subset:
  "set (intervals (fst (pollRequest_tick r st))) \<subseteq> set (intervals st)"
  by (cases r rule: observed.cases)
    (auto simp add: pollRequest_data_def showApproved_def showRejected_def clearInterval_def Let_def
       split: option.splits)

lemma pollRequest_run_intervals_subset:
  "set (intervals (pollRequest_run rs st)) \<subseteq> set (intervals st)"
proof (induction rs arbitrary: st)
  case Nil
  then show ?case by simp
next
  case (Cons r rs)
  have "set (intervals (pollRequest_run rs (fst (pollRequest_tick r st))))
          \<subseteq> set (intervals (fst (pollRequest_tick r st)))" by (rule Cons.IH)
  also have "\<dots> \<subseteq> set (intervals st)" by (rule pollRequest_tick_intervals_subset)
  finally show ?case by simp
qed

lemma pollRequest_run_active:
  assumes "pollInterval st = Some h" and "(h, cb) \<in> set (intervals st)"
  shows "((h, cb) \<in> set (intervals (pollRequest_run rs st)))
           = (\<forall>r\<in>set rs. observed r \<noteq> Some ''approved'' \<and> observed r \<noteq> Some ''rejected'')"
  using assms
proof (induction rs arbitrary: st)
  case Nil
  then show ?case by simp
next
  case (Cons r rs)
  show ?case
  proof (cases "observed r = Some ''approved'' \<or> observed r = Some ''rejected''")
    case True
    then have "intervals (fst (pollRequest_tick r st)) = filter (\<lambda>(j, cb). j \<noteq> h) (intervals st)"
      using Cons.prems(1) by (simp add: pollRequest_tick_terminal intervals_clearInterval)
    then have "(h, cb) \<notin> set (intervals (fst (pollRequest_tick r st)))" by simp
    with pollRequest_run_intervals_subset [of rs "fst (pollRequest_tick r st)"]
    have "(h, cb) \<notin> set (intervals (pollRequest_run rs (fst (pollRequest_tick r st))))" by blast
    with True show ?thesis by auto
  next
    case False
    then have "fst (pollRequest_tick r st) = st" by (simp add: pollRequest_tick_other)
    with Cons False show ?thesis by simp
  qed
qed

lemma pollRequest_starts:
  "pollInterval (pollRequest reqId st) = Some (nextHandle st)
   \<and> intervals (pollRequest reqId st) = intervals st @ [(nextHandle st, PollTick reqId)]"
  by (simp add: pollRequest_def setInterval_def)

lemma pollRequest_tick_approved:
  assumes "observed r = Some ''approved''"
  shows "''hidden'' \<notin> set (statusApproved (page (fst (pollRequest_tick r st))))
         \<and> length (timeouts (fst (pollRequest_tick r st))) = Suc (length (timeouts st))"
  using assms by (cases r rule: observed.cases)
    (simp_all add: pollRequest_data_def showApproved_def clearInterval_def cl_remove_def Let_def
       split: option.splits)

text \<open>
  C2. \<open>pollRequest reqId\<close> starts a polling loop, the interval with the handle
  \<open>nextHandle st\<close>. After the ticks of any run, whose fetches may fail or be answered
  with any \<open>status\<close> or none, that interval is still active exactly if no tick of the
  run observed \<open>approved\<close> or \<open>rejected\<close>: the loop is cancelled at the first such
  observation and at no other, however long the run. The controller is in its approved
  state when the approved panel is shown and the navigation is scheduled: a tick that
  observes \<open>approved\<close> brings both about, and a run in which no tick observes
  \<open>approved\<close> leaves the approved panel, the pending timeouts and the location as
  they were. A tick that observes neither value changes nothing at all.
\<close>

theorem pollRequest_until_decided:
  "(((nextHandle st, PollTick reqId) \<in> set (intervals (pollRequest_run rs (pollRequest reqId st))))
      = (\<forall>r\<in>set rs. observed r \<noteq> Some ''approved'' \<and> observed r \<noteq> Some ''rejected''))
   \<and> ((\<forall>r\<in>set rs. observed r \<noteq> Some ''approved'') \<longrightarrow>
        statusApproved (page (pollRequest_run rs st1)) = statusApproved (page st1)
        \<and> timeouts (pollRequest_run rs st1) = timeouts st1
        \<and> location (pollRequest_run rs st1) = location st1)
   \<and> (observed r = Some ''approved'' \<longrightarrow>
        ''hidden'' \<notin> set (statusApproved (page (fst (pollRequest_tick r st1))))
        \<and> length (timeouts (fst (pollRequest_tick r st1))) = Suc (length (timeouts st1)))
   \<and> (observed r \<noteq> Some ''approved'' \<and> observed r \<noteq> Some ''rejected'' \<longrightarrow>
        fst (pollRequest_tick r st1) = st1)"
proof (intro conjI impI)
  show "((nextHandle st, PollTick reqId) \<in> set (intervals (pollRequest_run rs (pollRequest reqId st))))
      = (\<forall>r\<in>set rs. observed r \<noteq> Some ''approved'' \<and> observed r \<noteq> Some ''rejected'')"
    by (rule pollRequest_run_active) (simp_all add: pollRequest_starts)
next
  assume a: "\<forall>r\<in>set rs. observed r \<noteq> Some ''approved''"
  from pollRequest_run_not_approved [OF a, of st1]
  show "statusApproved (page (pollRequest_run rs st1)) = statusApproved (page st1)"
    and "timeouts (pollRequest_run rs st1) = timeouts st1"
    and "location (pollRequest_run rs st1) = location st1" by simp_all
next
  assume "observed r = Some ''approved''"
  then show "''hidden'' \<notin> set (statusApproved (page (fst (pollRequest_tick r st1))))"
    and "length (timeouts (fst (pollRequest_tick r st1))) = Suc (length (timeouts st1))"
    by (simp_all add: pollRequest_tick_approved)
next
  assume "observed r \<noteq> Some ''approved'' \<and> observed r \<noteq> Some ''rejected''"
  then show "fst (pollRequest_tick r st1) = st1" by (simp add: pollRequest_tick_other)
qed

text \<open>
  A loop that sees \<open>pending\<close>, a failed fetch and an unknown status is still running,
  and the approved panel is still hidden.
\<close>

theorem pollRequest_until_decided_witness:
  "(nextHandle (pageLoad [] page0), PollTick ''abc123'') \<in> set (intervals (pollRequest_run
      [Replied True (Some \<lparr>status = Some ''pending'', direct_link = None, req_id = None, link = None\<rparr>),
       Failed,
       Replied True (Some \<lparr>status = Some ''queued'', direct_link = None, req_id = None, link = None\<rparr>)]
      (pollRequest ''abc123'' (pageLoad [] page0))))
   \<and> statusApproved (page (pollRequest_run
      [Replied True (Some \<lparr>status = Some ''pending'', direct_link = None, req_id = None, link = None\<rparr>),
       Failed,
       Replied True (Some \<lparr>status = Some ''queued'', direct_link = None, req_id = None, link = None\<rparr>)]
      (pollRequest ''abc123'' (pageLoad [] page0)))) = [''hidden'']
   \<and> fst (pollRequest_tick
        (Replied True (Some \<lparr>status = Some ''queued'', direct_link = None, req_id = None, link = None\<rparr>))
        (pollRequest ''abc123'' (pageLoad [] page0))) = pollRequest ''abc123'' (pageLoad [] page0)"
  using pollRequest_until_decided
    [of "pageLoad [] page0" "''abc123''"
        "[Replied True (Some \<lparr>status = Some ''pending'', direct_link = None, req_id = None, link = None\<rparr>),
          Failed,
          Replied True (Some \<lparr>status = Some ''queued'', direct_link = None, req_id = None, link = None\<rparr>)]"
        "pollRequest ''abc123'' (pageLoad [] page0)"
        "Replied True (Some \<lparr>status = Some ''queued'', direct_link = None, req_id = None, link = None\<rparr>)"]
  by (simp add: pageLoad_def loadViewPreference_def getItem_def setInterval_def pollRequest_def
      page0_def pollRequest_data_def)

subsection \<open>Ticks whose fetch fails\<close>

text \<open>
  Neither polling chain catches a rejection: on a failed fetch the result of the chain of
  \<open>checkStatus\<close>, and of the chain of a tick of \<open>pollRequest\<close>, is the rejection
  itself.
\<close>

theorem polling_rejection_unhandled:
  "snd (checkStatus Failed (pageLoad [] page0)) = Inl NetworkFailure
   \<and> snd (pollRequest_tick Failed (pollRequest ''abc123'' (pageLoad [] page0))) = Inl NetworkFailure"
  by simp

lemma checkStatus_run_append:
  "checkStatus_run (rs1 @ rs2) st = checkStatus_run rs2 (checkStatus_run rs1 st)"
  by (induction rs1 arbitrary: st) simp_all

lemma pollRequest_run_append:
  "pollRequest_run (rs1 @ rs2) st = pollRequest_run rs2 (pollRequest_run rs1 st)"
  by (induction rs1 arbitrary: st) simp_all

text \<open>
  C8, as amended. A failed fetch during a status tick or a request tick, and likewise a
  body that is not JSON, is not caught by the script: the chain has no rejection handler
  and ends rejected. No callback of the tick runs, so the tick leaves the whole state as
  it was, the active timers included, and the later ticks run as if the failed one had
  never taken place.
\<close>

theorem polling_failure_skipped:
  "checkStatus Failed st = (st, Inl NetworkFailure)
   \<and> checkStatus (Replied ok None) st = (st, Inl JsonSyntaxError)
   \<and> pollRequest_tick Failed st = (st, Inl NetworkFailure)
   \<and> pollRequest_tick (Replied ok None) st = (st, Inl JsonSyntaxError)
   \<and> checkStatus_run (rs1 @ Failed # rs2) st = checkStatus_run (rs1 @ rs2) st
   \<and> pollRequest_run (ps1 @ Failed # ps2) st = pollRequest_run (ps1 @ ps2) st"
  by (simp add: checkStatus_run_append pollRequest_run_append)

subsection \<open>A download request that fails\<close>

lemma closeModal_fields:
  "location (closeModal st) = location st
   \<and> console (closeModal st) = console st
   \<and> alerts (closeModal st) = alerts st
   \<and> nextHandle (closeModal st) = nextHandle st
   \<and> timeouts (closeModal st) = timeouts st
   \<and> pollInterval (closeModal st) = pollInterval st
   \<and> currentReqId (closeModal st) = None
   \<and> set (intervals (closeModal st)) \<subseteq> set (intervals st)"
  by (auto simp add: closeModal_def clearInterval_def Let_def split: option.splits)

lemma cl_add_member: "set ts \<subseteq> set (cl_add ts cs)"
proof -
  have "set cs \<union> set ts \<subseteq> set (foldl (\<lambda>acc t. if t \<in> set acc then acc else acc @ [t]) cs ts)"
    by (induction ts arbitrary: cs) (auto, force+)
  then show ?thesis by (simp add: cl_add_def)
qed

lemma closeModal_hides:
  "''opacity-0'' \<in> set (approvalModal (page (closeModal st)))
   \<and> ''pointer-events-none'' \<in> set (approvalModal (page (closeModal st)))"
  using cl_add_member [of "[''opacity-0'', ''pointer-events-none'']" "approvalModal (page st)"]
  by (auto simp add: closeModal_def clearInterval_def Let_def split: option.splits)

lemma initiateDownload_catch_fields:
  "console (initiateDownload_catch e st) = console st @ [(''Download Request Failed:'', e)]
   \<and> alerts (initiateDownload_catch e st)
       = alerts st @ [''Could not request file. The shared folder might have changed.'']
   \<and> location (initiateDownload_catch e st) = location st @ [Reload]
   \<and> nextHandle (initiateDownload_catch e st) = nextHandle st
   \<and> timeouts (initiateDownload_catch e st) = timeouts st
   \<and> pollInterval (initiateDownload_catch e st) = pollInterval st
   \<and> currentReqId (initiateDownload_catch e st) = None
   \<and> set (intervals (initiateDownload_catch e st)) \<subseteq> set (intervals st)
   \<and> ''opacity-0'' \<in> set (approvalModal (page (initiateDownload_catch e st)))
   \<and> ''pointer-events-none'' \<in> set (approvalModal (page (initiateDownload_catch e st)))"
proof -
  let ?s = "st\<lparr>console := console st @ [(''Download Request Failed:'', e)]\<rparr>"
  have c: "initiateDownload_catch e st
      = navigate Reload ((closeModal ?s)\<lparr>alerts := alerts (closeModal ?s) @
          [''Could not request file. The shared folder might have changed.'']\<rparr>)"
    by (simp add: initiateDownload_catch_def Let_def)
  from closeModal_fields [of ?s] closeModal_hides [of ?s] show ?thesis
    unfolding c by (simp add: navigate_def)
qed

lemma initiateDownload_open_fields:
  "location (initiateDownload_open st) = location st
   \<and> console (initiateDownload_open st) = console st
   \<and> alerts (initiateDownload_open st) = alerts st
   \<and> nextHandle (initiateDownload_open st) = nextHandle st
   \<and> timeouts (initiateDownload_open st) = timeouts st
   \<and> pollInterval (initiateDownload_open st) = pollInterval st
   \<and> intervals (initiateDownload_open st) = intervals st
   \<and> currentReqId (initiateDownload_open st) = None"
  by (simp add: initiateDownload_open_def)

text \<open>
  In the first copy of the script a response that is not \<open>ok\<close> is signalled to nobody.
  With a body that is not JSON the chain ends rejected and unhandled, nothing is logged,
  no alert is shown, no reload is requested and the modal stays open. With a body that is
  JSON the callback runs as for any response, and a \<open>pending\<close> status starts a polling
  timer.
\<close>

theorem initiateDownload_v1_ignores_ok:
  "console (fst (initiateDownload_v1 ''report.pdf'' ''/docs'' (Replied False None) (pageLoad_v1 page0))) = []
   \<and> alerts (fst (initiateDownload_v1 ''report.pdf'' ''/docs'' (Replied False None) (pageLoad_v1 page0))) = []
   \<and> location (fst (initiateDownload_v1 ''report.pdf'' ''/docs'' (Replied False None) (pageLoad_v1 page0))) = []
   \<and> snd (initiateDownload_v1 ''report.pdf'' ''/docs'' (Replied False None) (pageLoad_v1 page0))
       = Inl JsonSyntaxError
   \<and> approvalModal (page (fst (initiateDownload_v1 ''report.pdf'' ''/docs'' (Replied False None)
        (pageLoad_v1 page0)))) = [''fixed'']
   \<and> pollTimers (fst (initiateDownload_v1 ''report.pdf'' ''/docs''
        (Replied False (Some \<lparr>status = Some ''pending'', direct_link = None, req_id = Some ''abc123'', link = None\<rparr>))
        (pageLoad_v1 page0))) = [(2, PollTick ''abc123'')]"
  by (simp add: initiateDownload_v1_def initiateDownload_v1_open_def initiateDownload_v1_data_def
      pageLoad_v1_def setInterval_def pollRequest_def pollTimers_def page0_def cl_remove_def
      cl_add_def)

text \<open>
  C5, as amended. In the second copy of the script (lines 407 to 447), a response to
  \<open>request_download\<close> that is not \<open>ok\<close> throws before its body is read and ends in
  the rejection handler: the failure is logged as \<open>Download Request Failed:\<close>, the modal
  is closed, which clears \<open>currentReqId\<close>, the user is alerted and the page is
  reloaded. No interval is registered (the next handle is the same and no interval is
  active that was not before) and no timeout is scheduled. In the first copy (lines 94 to
  126), \<open>initiateDownload\<close> does not read \<open>response.ok\<close>: it handles the response
  as it handles an \<open>ok\<close> response with the same body.
\<close>

theorem initiateDownload_not_ok:
  "\<not> ok \<Longrightarrow>
     initiateDownload filename path (Replied ok body) st
       = initiateDownload_catch (Error ''File not found or server error'') (initiateDownload_open st)
   \<and> console (initiateDownload filename path (Replied ok body) st)
       = console st @ [(''Download Request Failed:'', Error ''File not found or server error'')]
   \<and> alerts (initiateDownload filename path (Replied ok body) st)
       = alerts st @ [''Could not request file. The shared folder might have changed.'']
   \<and> location (initiateDownload filename path (Replied ok body) st) = location st @ [Reload]
   \<and> nextHandle (initiateDownload filename path (Replied ok body) st) = nextHandle st
   \<and> set (intervals (initiateDownload filename path (Replied ok body) st)) \<subseteq> set (intervals st)
   \<and> timeouts (initiateDownload filename path (Replied ok body) st) = timeouts st
   \<and> currentReqId (initiateDownload filename path (Replied ok body) st) = None
   \<and> ''opacity-0'' \<in> set (approvalModal (page (initiateDownload filename path (Replied ok body) st)))
   \<and> initiateDownload_v1 filename path (Replied ok body) st
       = initiateDownload_v1 filename path (Replied True body) st"
proof -
  assume n: "\<not> ok"
  let ?o = "initiateDownload_open st"
  let ?e = "Error ''File not found or server error''"
  from n have r: "initiateDownload filename path (Replied ok body) st = initiateDownload_catch ?e ?o"
    by (simp add: initiateDownload_def)
  have v: "initiateDownload_v1 filename path (Replied ok body) st
       = initiateDownload_v1 filename path (Replied True body) st"
    by (cases body) (simp_all add: initiateDownload_v1_def)
  from initiateDownload_catch_fields [of ?e ?o] initiateDownload_open_fields [of st] v
  show ?thesis unfolding r by simp
qed

theorem initiateDownload_not_ok_witness:
  "console (initiateDownload ''report.pdf'' ''/docs'' (Replied False None)
        (pollRequest ''abc123'' (pageLoad [] page0)))
       = [(''Download Request Failed:'', Error ''File not found or server error'')]
   \<and> location (initiateDownload ''report.pdf'' ''/docs'' (Replied False None)
        (pollRequest ''abc123'' (pageLoad [] page0))) = [Reload]
   \<and> pollTimers (initiateDownload ''report.pdf'' ''/docs'' (Replied False None)
        (pollRequest ''abc123'' (pageLoad [] page0))) = []
   \<and> currentReqId (initiateDownload ''report.pdf'' ''/docs'' (Replied False None)
        (pollRequest ''abc123'' (pageLoad [] page0))) = None"
  using initiateDownload_not_ok
    [of False "''report.pdf''" "''/docs''" None "pollRequest ''abc123'' (pageLoad [] page0)"]
  by (simp add: initiateDownload_def initiateDownload_open_def initiateDownload_catch_def
      closeModal_def clearInterval_def truthy_handle_def navigate_def Let_def
      pageLoad_def loadViewPreference_def getItem_def setInterval_def pollRequest_def
      pollTimers_def)

subsection \<open>A reply with an unknown status\<close>

lemma cl_remove_absent: "t \<in> set ts \<Longrightarrow> t \<notin> set (cl_remove ts cs)"
  by (simp add: cl_remove_def)

text \<open>
  C10. When \<open>request_download\<close> answers with an \<open>ok\<close> response whose \<open>status\<close>
  is neither \<open>approved\<close> nor \<open>pending\<close> (or is absent), the callback does nothing:
  \<open>initiateDownload\<close> leaves the state as the opening of the modal made it. No
  interval is registered, no timeout is scheduled, no navigation is requested, nothing is
  logged or alerted, \<open>currentReqId\<close> is null, and the modal stays open on its waiting
  panel.
\<close>

theorem initiateDownload_unknown_status:
  "status d \<noteq> Some ''approved'' \<Longrightarrow> status d \<noteq> Some ''pending'' \<Longrightarrow>
     initiateDownload filename path (Replied True (Some d)) st = initiateDownload_open st
   \<and> intervals (initiateDownload filename path (Replied True (Some d)) st) = intervals st
   \<and> nextHandle (initiateDownload filename path (Replied True (Some d)) st) = nextHandle st
   \<and> pollInterval (initiateDownload filename path (Replied True (Some d)) st) = pollInterval st
   \<and> timeouts (initiateDownload filename path (Replied True (Some d)) st) = timeouts st
   \<and> location (initiateDownload filename path (Replied True (Some d)) st) = location st
   \<and> console (initiateDownload filename path (Replied True (Some d)) st) = console st
   \<and> alerts (initiateDownload filename path (Replied True (Some d)) st) = alerts st
   \<and> currentReqId (initiateDownload filename path (Replied True (Some d)) st) = None
   \<and> ''hidden'' \<notin> set (statusWaiting (page (initiateDownload filename path (Replied True (Some d)) st)))
   \<and> ''opacity-0'' \<notin> set (approvalModal (page (initiateDownload filename path (Replied True (Some d)) st)))"
proof -
  assume a: "status d \<noteq> Some ''approved''" and p: "status d \<noteq> Some ''pending''"
  then have r: "initiateDownload filename path (Replied True (Some d)) st = initiateDownload_open st"
    by (simp add: initiateDownload_def initiateDownload_data_def)
  show ?thesis unfolding r
    by (simp add: initiateDownload_open_def cl_remove_absent)
qed

theorem initiateDownload_unknown_status_witness:
  "status \<lparr>status = Some ''queued'', direct_link = None, req_id = Some ''abc123'', link = None\<rparr> \<noteq> Some ''approved''
   \<and> status \<lparr>status = Some ''queued'', direct_link = None, req_id = Some ''abc123'', link = None\<rparr> \<noteq> Some ''pending''
   \<and> pollTimers (initiateDownload ''report.pdf'' ''/docs''
        (Replied True (Some \<lparr>status = Some ''queued'', direct_link = None, req_id = Some ''abc123'', link = None\<rparr>))
        (pageLoad [] page0)) = []
   \<and> location (initiateDownload ''report.pdf'' ''/docs''
        (Replied True (Some \<lparr>status = Some ''queued'', direct_link = None, req_id = Some ''abc123'', link = None\<rparr>))
        (pageLoad [] page0)) = []
   \<and> currentReqId (initiateDownload ''report.pdf'' ''/docs''
        (Replied True (Some \<lparr>status = Some ''queued'', direct_link = None, req_id = Some ''abc123'', link = None\<rparr>))
        (pageLoad [] page0)) = None
   \<and> statusWaiting (page (initiateDownload ''report.pdf'' ''/docs''
        (Replied True (Some \<lparr>status = Some ''queued'', direct_link = None, req_id = Some ''abc123'', link = None\<rparr>))
        (pageLoad [] page0))) = []"
  using initiateDownload_unknown_status
    [of "\<lparr>status = Some ''queued'', direct_link = None, req_id = Some ''abc123'', link = None\<rparr>"
        "''report.pdf''" "''/docs''" "pageLoad [] page0"]
  by (simp add: pollTimers_def pageLoad_def loadViewPreference_def getItem_def setInterval_def
      page0_def cl_remove_def cl_add_def initiateDownload_def initiateDownload_open_def
      initiateDownload_data_def)

subsection \<open>Polling loops that are started twice\<close>

text \<open>
  C1. \<open>pollRequest\<close> does not stop the interval whose handle \<open>pollInterval\<close> holds
  before it overwrites the handle, so two polling timers can be active at once, and the
  older one can no longer be stopped by \<open>closeModal\<close> or \<open>cancelDownload\<close>.
  The first scenario is one a user can produce: a download is requested, the modal is
  cancelled before the reply, the reply says \<open>pending\<close> and starts a loop behind the
  closed modal, and a second download is requested. In the others the calls follow each
  other directly.
\<close>

theorem pollRequest_leaks_timer:
  "pollTimers
     (initiateDownload ''b.txt'' []
        (Replied True (Some \<lparr>status = Some ''pending'', direct_link = None, req_id = Some ''r2'', link = None\<rparr>))
        (initiateDownload_reply
           (Replied True (Some \<lparr>status = Some ''pending'', direct_link = None, req_id = Some ''r1'', link = None\<rparr>))
           (cancelDownload Failed (initiateDownload_open (pageLoad [] page0)))))
     = [(2, PollTick ''r1''), (3, PollTick ''r2'')]
   \<and> pollTimers (calls_run
      [InitiateDownload ''a.txt'' [] (Replied True (Some
         \<lparr>status = Some ''pending'', direct_link = None, req_id = Some ''r1'', link = None\<rparr>)),
       InitiateDownload ''b.txt'' [] (Replied True (Some
         \<lparr>status = Some ''pending'', direct_link = None, req_id = Some ''r2'', link = None\<rparr>))]
      (pageLoad [] page0)) = [(2, PollTick ''r1''), (3, PollTick ''r2'')]
   \<and> pollTimers (calls_run
      [InitiateDownload ''a.txt'' [] (Replied True (Some
         \<lparr>status = Some ''pending'', direct_link = None, req_id = Some ''r1'', link = None\<rparr>)),
       InitiateDownload ''b.txt'' [] (Replied True (Some
         \<lparr>status = Some ''pending'', direct_link = None, req_id = Some ''r2'', link = None\<rparr>)),
       CloseModal]
      (pageLoad [] page0)) = [(2, PollTick ''r1'')]
   \<and> pollTimers (calls_run [PollRequest ''r1'', PollRequest ''r2'', CancelDownload Failed]
      (pageLoad [] page0)) = [(2, PollTick ''r1'')]"
  by (simp add: pollTimers_def pageLoad_def loadViewPreference_def getItem_def setInterval_def
      initiateDownload_def initiateDownload_open_def initiateDownload_data_def pollRequest_def
      closeModal_def cancelDownload_def clearInterval_def truthy_handle_def truthy_string_def
      Let_def)

section \<open>Properties of the view preference\<close>

lemma toggleView_stored:
  "getItem ''viewMode'' (toggleView f st)
     = Some (if isGridView (toggleView f st) then ''grid'' else ''list'')"
  by (simp add: toggleView_def Let_def getItem_def setItem_def)

lemma isGridView_pageLoad:
  "isGridView (pageLoad storage els) = (map_of storage ''viewMode'' \<noteq> Some ''list'')"
  by (simp add: pageLoad_def loadViewPreference_def getItem_def setInterval_def toggleView_def
      setItem_def Let_def)

text \<open>
  C9. \<open>toggleView\<close> is the only writer of the stored preference and
  \<open>loadViewPreference\<close>, run when the page loads, its only reader. Every call of
  \<open>toggleView\<close> stores the mode it has just set, within the call. A page loaded on the
  storage the call left comes up in that mode, with the same value stored, and so does
  \<open>loadViewPreference\<close> run in the same page. A page loaded on a storage without the
  key \<open>viewMode\<close> stays in grid view and writes nothing.
\<close>

theorem viewPreference_roundtrip:
  "getItem ''viewMode'' (toggleView f st)
     = Some (if isGridView (toggleView f st) then ''grid'' else ''list'')
   \<and> isGridView (pageLoad (localStorage (toggleView f st)) els) = isGridView (toggleView f st)
   \<and> getItem ''viewMode'' (pageLoad (localStorage (toggleView f st)) els)
       = getItem ''viewMode'' (toggleView f st)
   \<and> isGridView (loadViewPreference (toggleView f st)) = isGridView (toggleView f st)
   \<and> (map_of storage ''viewMode'' = None \<longrightarrow>
        isGridView (pageLoad storage els) \<and> localStorage (pageLoad storage els) = storage)"
proof (intro conjI impI)
  show s: "getItem ''viewMode'' (toggleView f st)
     = Some (if isGridView (toggleView f st) then ''grid'' else ''list'')"
    by (rule toggleView_stored)
  from s have m: "map_of (localStorage (toggleView f st)) ''viewMode''
      = Some (if isGridView (toggleView f st) then ''grid'' else ''list'')"
    by (simp add: getItem_def)
  from m show "isGridView (pageLoad (localStorage (toggleView f st)) els) = isGridView (toggleView f st)"
    by (simp add: isGridView_pageLoad)
  from m show "getItem ''viewMode'' (pageLoad (localStorage (toggleView f st)) els)
       = getItem ''viewMode'' (toggleView f st)"
    unfolding s
    by (simp add: pageLoad_def loadViewPreference_def getItem_def setInterval_def toggleView_def
        setItem_def Let_def)
  from s show "isGridView (loadViewPreference (toggleView f st)) = isGridView (toggleView f st)"
    by (simp add: loadViewPreference_def) (simp add: toggleView_def Let_def setItem_def)
next
  assume "map_of storage ''viewMode'' = None"
  then show "isGridView (pageLoad storage els)" by (simp add: isGridView_pageLoad)
next
  assume "map_of storage ''viewMode'' = None"
  then show "localStorage (pageLoad storage els) = storage"
    by (simp add: pageLoad_def loadViewPreference_def getItem_def setInterval_def)
qed

theorem viewPreference_roundtrip_witness:
  "map_of ([] :: (string \<times> string) list) ''viewMode'' = None
   \<and> isGridView (pageLoad [] page0)
   \<and> localStorage (toggleView False (pageLoad [] page0)) = [(''viewMode'', ''list'')]
   \<and> \<not> isGridView (pageLoad (localStorage (toggleView False (pageLoad [] page0))) page0)
   \<and> isGridView (pageLoad (localStorage (toggleView False (toggleView False (pageLoad [] page0)))) page0)"
  using viewPreference_roundtrip [of False "pageLoad [] page0" page0 "[]"]
    viewPreference_roundtrip [of False "toggleView False (pageLoad [] page0)" page0 "[]"]
  by (simp add: pageLoad_def loadViewPreference_def getItem_def setInterval_def toggleView_def
      setItem_def Let_def)

end
